theory Spec2Isabelle
  imports Complex_Main "HOL-Library.Char_ord" "HOL-Library.List_Lexorder"
    "HOL-Library.Product_Lexorder"
begin

section \<open>The input frame\<close>

text \<open>
  One row of the data frame that \<open>normalize_superstore_data\<close> loads from the CSV file,
  restricted to the columns the function reads. A column \<open>Customer ID\<close> of the file is the
  field \<open>Customer_ID\<close>. Every cell is present (no missing values); identifiers and texts are
  strings, \<open>Quantity\<close> is an integer, and the three fractional measures are exact rationals.
\<close>

record raw_record =
  Customer_ID :: string
  Customer_Name :: string
  Segment :: string
  Postal_Code :: string
  City :: string
  State :: string
  Region :: string
  Category :: string
  Sub_Category :: string
  Product_ID :: string
  Product_Name :: string
  Order_ID :: string
  Order_Date :: string
  Ship_Date :: string
  Ship_Mode :: string
  Sales :: rat
  Quantity :: int
  Discount :: rat
  Profit :: rat

section \<open>The data-frame operations the function calls\<close>

text \<open>
  \<open>drop_duplicates(subset=...)\<close> with the default \<open>keep='first'\<close>: one pass over the rows
  that remembers the keys already met and keeps a row only when its key is new.
\<close>

fun keep_first :: "('r \<Rightarrow> 'k) \<Rightarrow> 'k list \<Rightarrow> 'r list \<Rightarrow> 'r list" where
  "keep_first key seen [] = []"
| "keep_first key seen (r # rs) =
     (if key r \<in> set seen then keep_first key seen rs
      else r # keep_first key (key r # seen) rs)"

definition drop_duplicates :: "('r \<Rightarrow> 'k) \<Rightarrow> 'r list \<Rightarrow> 'r list" where
  "drop_duplicates key rows = keep_first key [] rows"

text \<open>\<open>Series.unique()\<close>: the distinct values of a column in order of first appearance.\<close>

definition unique :: "'a list \<Rightarrow> 'a list" where
  "unique xs = keep_first (\<lambda>x. x) [] xs"

text \<open>
  \<open>pd.merge(left, right, on=...)\<close> with the defaults \<open>how='inner'\<close> and \<open>sort=False\<close>:
  every left row is paired with every right row of the same key, the left rows in their
  order and the matches of one left row in the order of the right frame. A left row
  without a match yields no row.
\<close>

definition merge :: "('l \<Rightarrow> 'k) \<Rightarrow> ('r \<Rightarrow> 'k) \<Rightarrow> 'l list \<Rightarrow> 'r list \<Rightarrow> ('l \<times> 'r) list" where
  "merge lkey rkey left right =
     concat (map (\<lambda>l. map (\<lambda>r. (l, r)) (filter (\<lambda>r. rkey r = lkey l) right)) left)"

text \<open>
  The left rows that such a merge leaves out: those whose key matches no row of the right
  frame.
\<close>

definition unmatched :: "('l \<Rightarrow> 'k) \<Rightarrow> ('r \<Rightarrow> 'k) \<Rightarrow> 'l list \<Rightarrow> 'r list \<Rightarrow> 'l list" where
  "unmatched lkey rkey left right =
     filter (\<lambda>l. filter (\<lambda>r. rkey r = lkey l) right = []) left"

text \<open>
  \<open>frame.index + 1\<close> on a frame with the default range index: the rows numbered from 1.
\<close>

definition index_plus_1 :: "'r list \<Rightarrow> (int \<times> 'r) list" where
  "index_plus_1 rows = map (\<lambda>(i, r). (int i + 1, r)) (enumerate 0 rows)"

text \<open>
  \<open>groupby(keys)\<close> with the default \<open>sort=True\<close>: the distinct keys in ascending order,
  each with the rows of that key in their input order.
\<close>

definition groupby :: "('r \<Rightarrow> 'k::linorder) \<Rightarrow> 'r list \<Rightarrow> ('k \<times> 'r list) list" where
  "groupby key rows =
     map (\<lambda>k. (k, filter (\<lambda>r. key r = k) rows)) (sort (unique (map key rows)))"

text \<open>The aggregations \<open>'sum'\<close> and \<open>'mean'\<close> over the rows of one group.\<close>

definition mean :: "rat list \<Rightarrow> rat" where
  "mean xs = sum_list xs / of_nat (length xs)"

section \<open>The seven tables\<close>

record customer =
  c_CustomerID :: string
  c_CustomerName :: string
  c_Segment :: string

record location =
  l_PostalCode :: string
  l_City :: string
  l_State :: string
  l_Region :: string

record category =
  cat_CategoryID :: int
  cat_CategoryName :: string

record sub_category =
  sub_SubCategoryID :: int
  sub_SubCategoryName :: string
  sub_CategoryID :: int

record product =
  p_ProductID :: string
  p_ProductName :: string
  p_SubCategoryID :: int

record order =
  o_OrderID :: string
  o_OrderDate :: string
  o_ShipDate :: string
  o_ShipMode :: string
  o_CustomerID :: string
  o_PostalCode :: string

record order_detail =
  od_OrderID :: string
  od_ProductID :: string
  od_Sales :: rat
  od_Quantity :: int
  od_Discount :: rat
  od_Profit :: rat

text \<open>Customers: the three customer columns, one row per \<open>Customer ID\<close>, renamed.\<close>

definition customer_of :: "raw_record \<Rightarrow> customer" where
  "customer_of r =
     \<lparr>c_CustomerID = Customer_ID r, c_CustomerName = Customer_Name r, c_Segment = Segment r\<rparr>"

definition df_customers :: "raw_record list \<Rightarrow> customer list" where
  "df_customers df = drop_duplicates c_CustomerID (map customer_of df)"

text \<open>Locations: the four location columns, one row per \<open>Postal Code\<close>.\<close>

definition location_of :: "raw_record \<Rightarrow> location" where
  "location_of r =
     \<lparr>l_PostalCode = Postal_Code r, l_City = City r, l_State = State r, l_Region = Region r\<rparr>"

definition df_locations :: "raw_record list \<Rightarrow> location list" where
  "df_locations df = drop_duplicates l_PostalCode (map location_of df)"

text \<open>Categories: the distinct category names, numbered from 1.\<close>

definition df_categories :: "raw_record list \<Rightarrow> category list" where
  "df_categories df =
     map (\<lambda>(i, n). \<lparr>cat_CategoryID = i, cat_CategoryName = n\<rparr>)
       (index_plus_1 (unique (map Category df)))"

text \<open>
  Sub-categories: the distinct (category, sub-category) pairs, merged with the categories
  table on the category name, and the merged rows numbered from 1.
\<close>

definition sub_categories_from :: "raw_record list \<Rightarrow> category list \<Rightarrow> sub_category list" where
  "sub_categories_from df categories =
     map (\<lambda>(i, ((cn, sn), c)).
            \<lparr>sub_SubCategoryID = i, sub_SubCategoryName = sn, sub_CategoryID = cat_CategoryID c\<rparr>)
       (index_plus_1
          (merge fst cat_CategoryName
             (drop_duplicates (\<lambda>p. p) (map (\<lambda>r. (Category r, Sub_Category r)) df))
             categories))"

definition df_sub_categories :: "raw_record list \<Rightarrow> sub_category list" where
  "df_sub_categories df = sub_categories_from df (df_categories df)"

text \<open>
  Products: the three product columns, one row per \<open>Product ID\<close>, merged with the
  sub-categories table on the sub-category name.
\<close>

definition products_from :: "raw_record list \<Rightarrow> sub_category list \<Rightarrow> product list" where
  "products_from df sub_categories =
     map (\<lambda>((pid, pn, sn), s).
            \<lparr>p_ProductID = pid, p_ProductName = pn, p_SubCategoryID = sub_SubCategoryID s\<rparr>)
       (merge (\<lambda>(pid, pn, sn). sn) sub_SubCategoryName
          (drop_duplicates (\<lambda>(pid, pn, sn). pid)
             (map (\<lambda>r. (Product_ID r, Product_Name r, Sub_Category r)) df))
          sub_categories)"

definition df_products :: "raw_record list \<Rightarrow> product list" where
  "df_products df = products_from df (df_sub_categories df)"

text \<open>Orders: the six order columns, one row per \<open>Order ID\<close>.\<close>

definition order_of :: "raw_record \<Rightarrow> order" where
  "order_of r =
     \<lparr>o_OrderID = Order_ID r, o_OrderDate = Order_Date r, o_ShipDate = Ship_Date r,
      o_ShipMode = Ship_Mode r, o_CustomerID = Customer_ID r, o_PostalCode = Postal_Code r\<rparr>"

definition df_orders :: "raw_record list \<Rightarrow> order list" where
  "df_orders df = drop_duplicates o_OrderID (map order_of df)"

text \<open>
  Order details: the rows grouped by (\<open>Order ID\<close>, \<open>Product ID\<close>); sales, quantity and
  profit of a group are summed and its discount is averaged.
\<close>

definition order_detail_of :: "(string \<times> string) \<times> raw_record list \<Rightarrow> order_detail" where
  "order_detail_of g =
     \<lparr>od_OrderID = fst (fst g), od_ProductID = snd (fst g),
      od_Sales = sum_list (map Sales (snd g)),
      od_Quantity = sum_list (map Quantity (snd g)),
      od_Discount = mean (map Discount (snd g)),
      od_Profit = sum_list (map Profit (snd g))\<rparr>"

definition df_order_details :: "raw_record list \<Rightarrow> order_detail list" where
  "df_order_details df =
     map order_detail_of (groupby (\<lambda>r. (Order_ID r, Product_ID r)) df)"

section \<open>The run: reading the input and writing the seven files\<close>

text \<open>
  What \<open>pd.read_csv\<close> can do: raise \<open>FileNotFoundError\<close>, raise any other exception
  (with its text), or return the frame.
\<close>

datatype read_error = FileNotFoundError | OtherException string

text \<open>
  A written CSV file is the table it holds; \<open>to_csv(..., index=False)\<close> writes the column
  names of the frame as the header row and then one line per row.
\<close>

datatype table =
    Customers "customer list"
  | Locations "location list"
  | Categories "category list"
  | SubCategories "sub_category list"
  | Products "product list"
  | Orders "order list"
  | OrderDetails "order_detail list"

fun header :: "table \<Rightarrow> string list" where
  "header (Customers rows) = [''CustomerID'', ''CustomerName'', ''Segment'']"
| "header (Locations rows) = [''PostalCode'', ''City'', ''State'', ''Region'']"
| "header (Categories rows) = [''CategoryID'', ''CategoryName'']"
| "header (SubCategories rows) = [''SubCategoryID'', ''SubCategoryName'', ''CategoryID'']"
| "header (Products rows) = [''ProductID'', ''ProductName'', ''SubCategoryID'']"
| "header (Orders rows) =
     [''OrderID'', ''OrderDate'', ''ShipDate'', ''ShipMode'', ''CustomerID'', ''PostalCode'']"
| "header (OrderDetails rows) =
     [''OrderID'', ''ProductID'', ''Sales'', ''Quantity'', ''Discount'', ''Profit'']"

fun data_rows :: "table \<Rightarrow> nat" where
  "data_rows (Customers rows) = length rows"
| "data_rows (Locations rows) = length rows"
| "data_rows (Categories rows) = length rows"
| "data_rows (SubCategories rows) = length rows"
| "data_rows (Products rows) = length rows"
| "data_rows (Orders rows) = length rows"
| "data_rows (OrderDetails rows) = length rows"

text \<open>The lines the function prints.\<close>

datatype message =
    Successfully_loaded string
  | File_not_found string
  | Error_while_reading string
  | Created_output_directory string
  | Created_file string
  | Normalization_complete string

text \<open>
  The part of the outside world the function touches: the directories that exist, the
  files with their contents, and what has been printed.
\<close>

record world =
  dirs :: "string set"
  files :: "string \<rightharpoonup> table"
  console :: "message list"

definition print :: "message \<Rightarrow> world \<Rightarrow> world" where
  "print m w = w\<lparr>console := console w @ [m]\<rparr>"

definition path_join :: "string \<Rightarrow> string \<Rightarrow> string" where
  "path_join dir name = dir @ ''/'' @ name"

definition to_csv :: "string \<Rightarrow> table \<Rightarrow> world \<Rightarrow> world" where
  "to_csv path t w = w\<lparr>files := (files w)(path \<mapsto> t)\<rparr>"

definition output_dir :: string where
  "output_dir = ''normalized_superstore_data''"

definition makedirs_if_absent :: "string \<Rightarrow> world \<Rightarrow> world" where
  "makedirs_if_absent dir w =
     (if dir \<in> dirs w then w
      else print (Created_output_directory dir) (w\<lparr>dirs := insert dir (dirs w)\<rparr>))"

definition write_table :: "string \<Rightarrow> table \<Rightarrow> world \<Rightarrow> world" where
  "write_table name t w = print (Created_file name) (to_csv (path_join output_dir name) t w)"

text \<open>
  \<open>normalize_superstore_data\<close>. The outcome of \<open>pd.read_csv(input_csv_path, ...)\<close> is the
  argument \<open>read_csv\<close>: both \<open>except\<close> branches print and return, otherwise the directory is
  made and the seven tables are computed and written one after the other.
\<close>

definition normalize_superstore_data ::
    "string \<Rightarrow> read_error + raw_record list \<Rightarrow> world \<Rightarrow> world" where
  "normalize_superstore_data input_csv_path read_csv w =
     (case read_csv of
        Inl FileNotFoundError \<Rightarrow> print (File_not_found input_csv_path) w
      | Inl (OtherException e) \<Rightarrow> print (Error_while_reading e) w
      | Inr df \<Rightarrow>
          (let w = print (Successfully_loaded input_csv_path) w;
               w = makedirs_if_absent output_dir w;
               w = write_table ''customers.csv'' (Customers (df_customers df)) w;
               w = write_table ''locations.csv'' (Locations (df_locations df)) w;
               w = write_table ''categories.csv'' (Categories (df_categories df)) w;
               w = write_table ''sub_categories.csv'' (SubCategories (df_sub_categories df)) w;
               w = write_table ''products.csv'' (Products (df_products df)) w;
               w = write_table ''orders.csv'' (Orders (df_orders df)) w;
               w = write_table ''order_details.csv'' (OrderDetails (df_order_details df)) w
           in print (Normalization_complete output_dir) w))"

section \<open>First-appearance rank and example rows\<close>

text \<open>
  The 1-based rank of first appearance of \<open>x\<close> in \<open>xs\<close>: one more than the number of
  distinct values met before the first \<open>x\<close>.
\<close>

definition first_appearance_rank :: "'a \<Rightarrow> 'a list \<Rightarrow> int" where
  "first_appearance_rank x xs = 1 + int (length (remdups (takeWhile (\<lambda>y. y \<noteq> x) xs)))"

text \<open>
  An input row for the examples: category, sub-category, product, order and the four
  measures are given, every other cell is the same in all rows.
\<close>

definition line_item ::
    "string \<Rightarrow> string \<Rightarrow> string \<Rightarrow> string \<Rightarrow> rat \<Rightarrow> int \<Rightarrow> rat \<Rightarrow> rat \<Rightarrow> raw_record" where
  "line_item cat sub pid oid sales qty disc profit =
     \<lparr>Customer_ID = ''C1'', Customer_Name = ''Ann'', Segment = ''Consumer'',
      Postal_Code = ''10001'', City = ''New York City'', State = ''New York'', Region = ''East'',
      Category = cat, Sub_Category = sub, Product_ID = pid, Product_Name = ''Item'',
      Order_ID = oid, Order_Date = ''1/1/2016'', Ship_Date = ''1/2/2016'',
      Ship_Mode = ''First Class'',
      Sales = sales, Quantity = qty, Discount = disc, Profit = profit\<rparr>"

section \<open>Facts about the data-frame operations\<close>

lemma keep_first_keys:
  "key ` set (keep_first key seen rows) = key ` set rows - set seen"
  by (induction rows arbitrary: seen) auto

lemma keep_first_distinct:
  "distinct (map key (keep_first key seen rows))"
proof (induction rows arbitrary: seen)
  case Nil
  show ?case by simp
next
  case (Cons r rows)
  have "key r \<notin> key ` set (keep_first key (key r # seen) rows)"
    by (simp add: keep_first_keys)
  with Cons show ?case by simp
qed





lemma find_map_key:
  "(\<And>r. key' (f r) = key r) \<Longrightarrow>
   find (\<lambda>c. key' c = k) (map f rows) = map_option f (find (\<lambda>r. key r = k) rows)"
  by (induction rows) auto



section \<open>Natural-key tables\<close>








section \<open>Surrogate keys\<close>

lemma unique_set [simp]: "set (unique xs) = set xs"
  using keep_first_keys [of "\<lambda>x. x" "[]" xs] by (simp add: unique_def)

lemma unique_distinct [simp]: "distinct (unique xs)"
  using keep_first_distinct [of "\<lambda>x. x" "[]" xs] by (simp add: unique_def)

lemma length_unique: "length (unique xs) = card (set xs)"
  using distinct_card [OF unique_distinct, of xs] by simp

lemma keep_first_map:
  "map key (keep_first key seen rows) = keep_first (\<lambda>x. x) seen (map key rows)"
  by (induction rows arbitrary: seen) auto

lemma drop_duplicates_map_key:
  "map key (drop_duplicates key rows) = unique (map key rows)"
  by (simp add: drop_duplicates_def unique_def keep_first_map)

lemma drop_duplicates_all_columns: "drop_duplicates (\<lambda>p. p) rows = unique rows"
  by (simp add: drop_duplicates_def unique_def)

lemma keep_first_rank:
  "map (\<lambda>(i, x). (int i + 1, x)) (enumerate n (keep_first (\<lambda>x. x) seen xs)) =
   map (\<lambda>x. (int n + 1 + int (card (set (takeWhile (\<lambda>y. y \<noteq> x) xs) - set seen)), x))
     (keep_first (\<lambda>x. x) seen xs)"
proof (induction xs arbitrary: n seen)
  case Nil
  show ?case by simp
next
  case (Cons a xs)
  let ?before = "\<lambda>x zs. set (takeWhile (\<lambda>y. y \<noteq> x) zs)"
  show ?case
  proof (cases "a \<in> set seen")
    case True
    have same: "?before x (a # xs) - set seen = ?before x xs - set seen"
      if "x \<in> set (keep_first (\<lambda>x. x) seen xs)" for x
    proof -
      from that keep_first_keys [of "\<lambda>x. x" seen xs] have "x \<notin> set seen" by auto
      with True have "x \<noteq> a" by auto
      with True show ?thesis by auto
    qed
    have "map (\<lambda>x. (int n + 1 + int (card (?before x (a # xs) - set seen)), x))
            (keep_first (\<lambda>x. x) seen xs) =
          map (\<lambda>x. (int n + 1 + int (card (?before x xs - set seen)), x))
            (keep_first (\<lambda>x. x) seen xs)"
      by (rule map_cong [OF refl]) (simp only: same)
    with True Cons [of n seen] show ?thesis by (simp only: keep_first.simps if_True)
  next
    case False
    have more: "card (?before x (a # xs) - set seen) =
        Suc (card (?before x xs - set (a # seen)))"
      if "x \<in> set (keep_first (\<lambda>x. x) (a # seen) xs)" for x
    proof -
      from that keep_first_keys [of "\<lambda>x. x" "a # seen" xs] have "x \<noteq> a" by auto
      then have "?before x (a # xs) - set seen = insert a (?before x xs - set (a # seen))"
        using False by auto
      then show ?thesis by simp
    qed
    have tail: "map (\<lambda>x. (int n + 1 + int (card (?before x (a # xs) - set seen)), x))
            (keep_first (\<lambda>x. x) (a # seen) xs) =
          map (\<lambda>x. (int (Suc n) + 1 + int (card (?before x xs - set (a # seen))), x))
            (keep_first (\<lambda>x. x) (a # seen) xs)"
      by (rule map_cong [OF refl]) (simp only: more, simp)
    have head: "card (?before a (a # xs) - set seen) = 0" by simp
    have "keep_first (\<lambda>x. x) seen (a # xs) = a # keep_first (\<lambda>x. x) (a # seen) xs"
      using False by simp
    then show ?thesis
      by (simp only: enumerate_simps list.map prod.case tail head Cons [of "Suc n" "a # seen"])
        simp
  qed
qed

lemma index_plus_1_unique:
  "index_plus_1 (unique xs) = map (\<lambda>x. (first_appearance_rank x xs, x)) (unique xs)"
  using keep_first_rank [of 0 "[]" xs]
  by (simp add: index_plus_1_def unique_def first_appearance_rank_def length_remdups_card_conv)

lemma fst_index_plus_1: "map fst (index_plus_1 rows) = map int [1..<Suc (length rows)]"
proof -
  have "map fst (map (\<lambda>(i, r). (int i + 1, r)) (enumerate n rows)) =
      map int [Suc n..<Suc n + length rows]" for n
    by (induction rows arbitrary: n) (simp_all add: upt_rec [of "Suc n" for n] del: upt_Suc)
  from this [of 0] show ?thesis by (simp add: index_plus_1_def)
qed

lemma snd_index_plus_1: "map snd (index_plus_1 rows) = rows"
proof -
  have "map snd (map (\<lambda>(i, r). (int i + 1, r)) (enumerate n rows)) = rows" for n
    by (induction rows arbitrary: n) simp_all
  then show ?thesis by (simp add: index_plus_1_def)
qed

lemma rank_unique:
  "map (\<lambda>x. first_appearance_rank x xs) (unique xs) = map int [1..<Suc (card (set xs))]"
  using fst_index_plus_1 [of "unique xs"]
  by (simp add: index_plus_1_unique length_unique comp_def)

lemma rank_drop_duplicates:
  "map (\<lambda>r. first_appearance_rank (key r) (map key rows)) (drop_duplicates key rows) =
   map int [1..<Suc (card (key ` set rows))]"
  using rank_unique [of "map key rows"] drop_duplicates_map_key [of key rows, symmetric]
  by (simp add: comp_def)

lemma filter_eq_distinct:
  "distinct xs \<Longrightarrow> filter (\<lambda>x. x = k) xs = (if k \<in> set xs then [k] else [])"
  by (induction xs) auto

lemma find_eq: "find (\<lambda>x. x = k) xs = (if k \<in> set xs then Some k else None)"
  by (induction xs) auto

subsection \<open>The categories table\<close>

lemma categories_by_rank:
  "df_categories df =
     map (\<lambda>n. \<lparr>cat_CategoryID = first_appearance_rank n (map Category df), cat_CategoryName = n\<rparr>)
       (unique (map Category df))"
  by (simp add: df_categories_def index_plus_1_unique comp_def)

lemma categories_ids:
  "map cat_CategoryID (df_categories df) = map int [1..<Suc (card (Category ` set df))]"
  using rank_unique [of "map Category df"] by (simp add: categories_by_rank comp_def)

lemma categories_names: "map cat_CategoryName (df_categories df) = unique (map Category df)"
  by (simp add: categories_by_rank comp_def)

lemma categories_set:
  "(\<lambda>c. (cat_CategoryName c, cat_CategoryID c)) ` set (df_categories df) =
   (\<lambda>n. (n, first_appearance_rank n (map Category df))) ` Category ` set df"
  by (simp add: categories_by_rank image_image)

lemma categories_lookup:
  "filter (\<lambda>c. cat_CategoryName c = n) (df_categories df) =
     (if n \<in> Category ` set df
      then [\<lparr>cat_CategoryID = first_appearance_rank n (map Category df), cat_CategoryName = n\<rparr>]
      else [])"
  by (simp add: categories_by_rank filter_map comp_def filter_eq_distinct)

subsection \<open>Inner merge\<close>

lemma merge_set: "set (merge lkey rkey left right) \<subseteq> set left \<times> set right"
  by (auto simp: merge_def)

lemma merge_single:
  "(\<And>l. l \<in> set left \<Longrightarrow> filter (\<lambda>r. rkey r = lkey l) right = [f l]) \<Longrightarrow>
   merge lkey rkey left right = map (\<lambda>l. (l, f l)) left"
  by (induction left) (simp_all add: merge_def)

lemma index_plus_1_map:
  "index_plus_1 (map f rows) = map (\<lambda>(i, r). (i, f r)) (index_plus_1 rows)"
  by (simp add: index_plus_1_def enumerate_map_upt [symmetric] enumerate_eq_zip zip_map2 comp_def
      split_def)

subsection \<open>The sub-categories table\<close>

lemma sub_categories_by_rank:
  "df_sub_categories df =
     map (\<lambda>(cn, sn).
            \<lparr>sub_SubCategoryID =
               first_appearance_rank (cn, sn) (map (\<lambda>r. (Category r, Sub_Category r)) df),
             sub_SubCategoryName = sn,
             sub_CategoryID = first_appearance_rank cn (map Category df)\<rparr>)
       (unique (map (\<lambda>r. (Category r, Sub_Category r)) df))"
proof -
  let ?pairs = "map (\<lambda>r. (Category r, Sub_Category r)) df"
  let ?cat = "\<lambda>l. \<lparr>cat_CategoryID = first_appearance_rank (fst l) (map Category df),
                    cat_CategoryName = fst l\<rparr>"
  have "filter (\<lambda>c. cat_CategoryName c = fst l) (df_categories df) = [?cat l]"
    if "l \<in> set (unique ?pairs)" for l
  proof -
    from that have "fst l \<in> Category ` set df" by auto
    then show ?thesis by (simp add: categories_lookup)
  qed
  then have "merge fst cat_CategoryName (unique ?pairs) (df_categories df) =
      map (\<lambda>l. (l, ?cat l)) (unique ?pairs)"
    by (rule merge_single)
  then show ?thesis
    by (simp add: df_sub_categories_def sub_categories_from_def drop_duplicates_all_columns
        index_plus_1_map index_plus_1_unique comp_def split_def)
qed

lemma sub_categories_ids:
  "map sub_SubCategoryID (df_sub_categories df) =
     map int [1..<Suc (card ((\<lambda>r. (Category r, Sub_Category r)) ` set df))]"
  using rank_unique [of "map (\<lambda>r. (Category r, Sub_Category r)) df"]
  by (simp add: sub_categories_by_rank comp_def split_def)

lemma sub_categories_set:
  "(\<lambda>s. (sub_SubCategoryID s, sub_SubCategoryName s, sub_CategoryID s)) `
     set (df_sub_categories df) =
   (\<lambda>r. (first_appearance_rank (Category r, Sub_Category r)
             (map (\<lambda>r. (Category r, Sub_Category r)) df),
           Sub_Category r,
           first_appearance_rank (Category r) (map Category df))) ` set df"
  by (simp add: sub_categories_by_rank image_image split_def)

lemma sub_categories_names:
  "map sub_SubCategoryName (df_sub_categories df) =
     map snd (unique (map (\<lambda>r. (Category r, Sub_Category r)) df))"
  by (simp add: sub_categories_by_rank comp_def split_def)


subsection \<open>The example of three rows\<close>

lemma example_categories:
  "df_categories
     [line_item ''Furniture'' ''Chairs'' p1 o1 s1 q1 d1 f1,
      line_item ''Office Supplies'' ''Paper'' p2 o2 s2 q2 d2 f2,
      line_item ''Furniture'' ''Tables'' p3 o3 s3 q3 d3 f3] =
   [\<lparr>cat_CategoryID = 1, cat_CategoryName = ''Furniture''\<rparr>,
    \<lparr>cat_CategoryID = 2, cat_CategoryName = ''Office Supplies''\<rparr>]"
  by (simp add: df_categories_def index_plus_1_def unique_def line_item_def)

lemma example_sub_categories:
  "df_sub_categories
     [line_item ''Furniture'' ''Chairs'' p1 o1 s1 q1 d1 f1,
      line_item ''Office Supplies'' ''Paper'' p2 o2 s2 q2 d2 f2,
      line_item ''Furniture'' ''Tables'' p3 o3 s3 q3 d3 f3] =
   [\<lparr>sub_SubCategoryID = 1, sub_SubCategoryName = ''Chairs'', sub_CategoryID = 1\<rparr>,
    \<lparr>sub_SubCategoryID = 2, sub_SubCategoryName = ''Paper'', sub_CategoryID = 2\<rparr>,
    \<lparr>sub_SubCategoryID = 3, sub_SubCategoryName = ''Tables'', sub_CategoryID = 1\<rparr>]"
  by (simp add: df_sub_categories_def sub_categories_from_def df_categories_def index_plus_1_def
      unique_def drop_duplicates_def merge_def line_item_def)

text \<open>
  C2. The CategoryID column is 1, 2, ..., N with N the number of distinct category names,
  and the (name, id) pairs of the categories table are the category names of the input
  with their 1-based rank of first appearance. The SubCategoryID column is 1, ..., M with M
  the number of distinct (category, sub-category) pairs, and every row of the
  sub-categories table carries the first-appearance rank of its pair, the sub-category
  name, and the first-appearance rank of its category. For the input order
  (Furniture, Chairs), (Office Supplies, Paper), (Furniture, Tables) the categories are
  Furniture 1, Office Supplies 2 and the sub-categories Chairs 1, Paper 2, Tables 3.
\<close>

theorem surrogate_keys_dense_first_appearance:
  "map cat_CategoryID (df_categories df) = map int [1..<Suc (card (Category ` set df))]
   \<and> (\<lambda>c. (cat_CategoryName c, cat_CategoryID c)) ` set (df_categories df) =
       (\<lambda>n. (n, first_appearance_rank n (map Category df))) ` Category ` set df
   \<and> map sub_SubCategoryID (df_sub_categories df) =
       map int [1..<Suc (card ((\<lambda>r. (Category r, Sub_Category r)) ` set df))]
   \<and> (\<lambda>s. (sub_SubCategoryID s, sub_SubCategoryName s, sub_CategoryID s)) `
         set (df_sub_categories df) =
       (\<lambda>r. (first_appearance_rank (Category r, Sub_Category r)
                 (map (\<lambda>r. (Category r, Sub_Category r)) df),
               Sub_Category r,
               first_appearance_rank (Category r) (map Category df))) ` set df
   \<and> df_categories
         [line_item ''Furniture'' ''Chairs'' p1 o1 s1 q1 d1 f1,
          line_item ''Office Supplies'' ''Paper'' p2 o2 s2 q2 d2 f2,
          line_item ''Furniture'' ''Tables'' p3 o3 s3 q3 d3 f3] =
       [\<lparr>cat_CategoryID = 1, cat_CategoryName = ''Furniture''\<rparr>,
        \<lparr>cat_CategoryID = 2, cat_CategoryName = ''Office Supplies''\<rparr>]
   \<and> df_sub_categories
         [line_item ''Furniture'' ''Chairs'' p1 o1 s1 q1 d1 f1,
          line_item ''Office Supplies'' ''Paper'' p2 o2 s2 q2 d2 f2,
          line_item ''Furniture'' ''Tables'' p3 o3 s3 q3 d3 f3] =
       [\<lparr>sub_SubCategoryID = 1, sub_SubCategoryName = ''Chairs'', sub_CategoryID = 1\<rparr>,
        \<lparr>sub_SubCategoryID = 2, sub_SubCategoryName = ''Paper'', sub_CategoryID = 2\<rparr>,
        \<lparr>sub_SubCategoryID = 3, sub_SubCategoryName = ''Tables'', sub_CategoryID = 1\<rparr>]"
  using categories_ids [of df] categories_set [of df]
    sub_categories_ids [of df] sub_categories_set [of df]
    example_categories [of p1 o1 s1 q1 d1 f1 p2 o2 s2 q2 d2 f2 p3 o3 s3 q3 d3 f3]
    example_sub_categories [of p1 o1 s1 q1 d1 f1 p2 o2 s2 q2 d2 f2 p3 o3 s3 q3 d3 f3]
  by (intro conjI)

section \<open>The run\<close>

lemma files_print [simp]: "files (print m w) = files w"
  and dirs_print [simp]: "dirs (print m w) = dirs w"
  by (simp_all add: print_def)

lemma files_makedirs [simp]: "files (makedirs_if_absent d w) = files w"
  by (simp add: makedirs_if_absent_def)

lemma files_write_table [simp]:
  "files (write_table name t w) = (files w)(path_join output_dir name \<mapsto> t)"
  by (simp add: write_table_def to_csv_def)

lemma files_normalize_frame:
  "files (normalize_superstore_data path (Inr df) w) =
     (files w)
       (path_join output_dir ''customers.csv'' \<mapsto> Customers (df_customers df),
        path_join output_dir ''locations.csv'' \<mapsto> Locations (df_locations df),
        path_join output_dir ''categories.csv'' \<mapsto> Categories (df_categories df),
        path_join output_dir ''sub_categories.csv'' \<mapsto> SubCategories (df_sub_categories df),
        path_join output_dir ''products.csv'' \<mapsto> Products (df_products df),
        path_join output_dir ''orders.csv'' \<mapsto> Orders (df_orders df),
        path_join output_dir ''order_details.csv'' \<mapsto> OrderDetails (df_order_details df))"
  by (simp add: normalize_superstore_data_def Let_def)

lemma files_normalize_error:
  "files (normalize_superstore_data path (Inl e) w) = files w"
  "dirs (normalize_superstore_data path (Inl e) w) = dirs w"
  by (cases e; simp add: normalize_superstore_data_def)+

lemma empty_tables:
  "df_customers [] = []" "df_locations [] = []" "df_categories [] = []"
  "df_sub_categories [] = []" "df_products [] = []" "df_orders [] = []"
  "df_order_details [] = []"
  by (simp_all add: df_customers_def df_locations_def df_categories_def df_sub_categories_def
      df_products_def df_orders_def df_order_details_def drop_duplicates_def unique_def
      index_plus_1_def sub_categories_from_def products_from_def merge_def groupby_def)

text \<open>
  C7. When reading the input fails, with \<open>FileNotFoundError\<close> or with any other exception,
  the run leaves every file and every directory as it was: no output table is created or
  changed, and the output directory is not made.
\<close>

theorem read_failure_writes_nothing:
  "files (normalize_superstore_data path (Inl e) w) = files w
   \<and> dirs (normalize_superstore_data path (Inl e) w) = dirs w"
  using files_normalize_error [of path e w] by (intro conjI)

text \<open>
  C8. Running the function a second time with the same outcome of reading the input leaves
  the files exactly as the first run left them; and when the input was read, the seven
  output files hold the same tables whatever the files were before the run.
\<close>

theorem rerun_same_output:
  "files (normalize_superstore_data path input (normalize_superstore_data path input w)) =
     files (normalize_superstore_data path input w)
   \<and> map (\<lambda>name. files (normalize_superstore_data path (Inr df) w) (path_join output_dir name))
       [''customers.csv'', ''locations.csv'', ''categories.csv'', ''sub_categories.csv'',
        ''products.csv'', ''orders.csv'', ''order_details.csv''] =
     map (\<lambda>name. files (normalize_superstore_data path (Inr df) w') (path_join output_dir name))
       [''customers.csv'', ''locations.csv'', ''categories.csv'', ''sub_categories.csv'',
        ''products.csv'', ''orders.csv'', ''order_details.csv'']"
proof
  show "files (normalize_superstore_data path input (normalize_superstore_data path input w)) =
      files (normalize_superstore_data path input w)"
  proof (cases input)
    case (Inl e)
    then show ?thesis by (simp add: files_normalize_error)
  next
    case (Inr df')
    show ?thesis unfolding Inr files_normalize_frame
      by (rule ext) simp
  qed
next
  show "map (\<lambda>name. files (normalize_superstore_data path (Inr df) w) (path_join output_dir name))
       [''customers.csv'', ''locations.csv'', ''categories.csv'', ''sub_categories.csv'',
        ''products.csv'', ''orders.csv'', ''order_details.csv''] =
     map (\<lambda>name. files (normalize_superstore_data path (Inr df) w') (path_join output_dir name))
       [''customers.csv'', ''locations.csv'', ''categories.csv'', ''sub_categories.csv'',
        ''products.csv'', ''orders.csv'', ''order_details.csv'']"
    by (simp add: files_normalize_frame path_join_def)
qed

text \<open>
  C9. For an input frame without rows the run ends with the completion message and each of
  the seven output files holds its header row and no data row.
\<close>

theorem empty_input_header_only_tables:
  "map (\<lambda>name. map_option (\<lambda>t. (header t, data_rows t))
          (files (normalize_superstore_data path (Inr []) w) (path_join output_dir name)))
     [''customers.csv'', ''locations.csv'', ''categories.csv'', ''sub_categories.csv'',
      ''products.csv'', ''orders.csv'', ''order_details.csv''] =
   [Some ([''CustomerID'', ''CustomerName'', ''Segment''], 0),
    Some ([''PostalCode'', ''City'', ''State'', ''Region''], 0),
    Some ([''CategoryID'', ''CategoryName''], 0),
    Some ([''SubCategoryID'', ''SubCategoryName'', ''CategoryID''], 0),
    Some ([''ProductID'', ''ProductName'', ''SubCategoryID''], 0),
    Some ([''OrderID'', ''OrderDate'', ''ShipDate'', ''ShipMode'', ''CustomerID'', ''PostalCode''], 0),
    Some ([''OrderID'', ''ProductID'', ''Sales'', ''Quantity'', ''Discount'', ''Profit''], 0)]
   \<and> last (console (normalize_superstore_data path (Inr []) w)) =
       Normalization_complete output_dir"
  by (simp add: files_normalize_frame empty_tables path_join_def
      normalize_superstore_data_def print_def Let_def)

section \<open>The order-details table\<close>

lemma sort_unique_keys:
  "sort (unique xs) = sorted_list_of_set (set xs)"
  by (rule sorted_distinct_set_unique) simp_all

lemma order_details_keys:
  "map (\<lambda>d. (od_OrderID d, od_ProductID d)) (df_order_details df) =
     sorted_list_of_set ((\<lambda>r. (Order_ID r, Product_ID r)) ` set df)"
  by (simp add: df_order_details_def groupby_def order_detail_of_def comp_def sort_unique_keys)

lemma order_details_strictly_ascending:
  "sorted_wrt (<) (map (\<lambda>d. (od_OrderID d, od_ProductID d)) (df_order_details df))"
  by (simp add: order_details_keys)

lemma order_details_find:
  "find (\<lambda>d. (od_OrderID d, od_ProductID d) = (oid, pid)) (df_order_details df) =
     (if (oid, pid) \<in> (\<lambda>r. (Order_ID r, Product_ID r)) ` set df
      then Some \<lparr>od_OrderID = oid, od_ProductID = pid,
        od_Sales = sum_list (map Sales (filter (\<lambda>r. Order_ID r = oid \<and> Product_ID r = pid) df)),
        od_Quantity =
          sum_list (map Quantity (filter (\<lambda>r. Order_ID r = oid \<and> Product_ID r = pid) df)),
        od_Discount =
          sum_list (map Discount (filter (\<lambda>r. Order_ID r = oid \<and> Product_ID r = pid) df)) /
          of_nat (length (filter (\<lambda>r. Order_ID r = oid \<and> Product_ID r = pid) df)),
        od_Profit =
          sum_list (map Profit (filter (\<lambda>r. Order_ID r = oid \<and> Product_ID r = pid) df))\<rparr>
      else None)"
proof -
  let ?row = "\<lambda>k. order_detail_of (k, filter (\<lambda>r. (Order_ID r, Product_ID r) = k) df)"
  let ?keys = "sort (unique (map (\<lambda>r. (Order_ID r, Product_ID r)) df))"
  have "df_order_details df = map ?row ?keys"
    by (simp add: df_order_details_def groupby_def comp_def)
  moreover have "find (\<lambda>d. (od_OrderID d, od_ProductID d) = (oid, pid)) (map ?row ?keys) =
      map_option ?row (find (\<lambda>k. k = (oid, pid)) ?keys)"
    by (rule find_map_key) (simp add: order_detail_of_def)
  ultimately show ?thesis
    by (simp add: find_eq order_detail_of_def mean_def)
qed

lemma order_details_distinct:
  "distinct (map (\<lambda>d. (od_OrderID d, od_ProductID d)) (df_order_details df))"
  by (simp add: order_details_keys)

lemma example_order_details:
  "df_order_details
     [line_item c1 s1 ''P1'' ''O1'' 10 1 (1 / 10) 2,
      line_item c2 s2 ''P1'' ''O1'' 20 2 (3 / 10) 4] =
   [\<lparr>od_OrderID = ''O1'', od_ProductID = ''P1'', od_Sales = 30, od_Quantity = 3,
     od_Discount = 2 / 10, od_Profit = 6\<rparr>]"
  by (simp add: df_order_details_def groupby_def unique_def order_detail_of_def mean_def
      line_item_def)

text \<open>
  C3. The order-details table has no two rows with the same (OrderID, ProductID); the row
  of a pair that occurs in the input carries the sums of sales, quantity and profit and the
  arithmetic mean of the discount over all input rows of that pair, and a pair that does
  not occur has no row. Two input rows for (O1, P1) with sales 10 and 20, quantities 1 and
  2, discounts 0.1 and 0.3 and profits 2 and 4 give the single row with sales 30,
  quantity 3, discount 0.2 and profit 6.
\<close>

theorem order_details_aggregates:
  "distinct (map (\<lambda>d. (od_OrderID d, od_ProductID d)) (df_order_details df))
   \<and> find (\<lambda>d. (od_OrderID d, od_ProductID d) = (oid, pid)) (df_order_details df) =
     (if (oid, pid) \<in> (\<lambda>r. (Order_ID r, Product_ID r)) ` set df
      then Some \<lparr>od_OrderID = oid, od_ProductID = pid,
        od_Sales = sum_list (map Sales (filter (\<lambda>r. Order_ID r = oid \<and> Product_ID r = pid) df)),
        od_Quantity =
          sum_list (map Quantity (filter (\<lambda>r. Order_ID r = oid \<and> Product_ID r = pid) df)),
        od_Discount =
          sum_list (map Discount (filter (\<lambda>r. Order_ID r = oid \<and> Product_ID r = pid) df)) /
          of_nat (length (filter (\<lambda>r. Order_ID r = oid \<and> Product_ID r = pid) df)),
        od_Profit =
          sum_list (map Profit (filter (\<lambda>r. Order_ID r = oid \<and> Product_ID r = pid) df))\<rparr>
      else None)
   \<and> df_order_details
       [line_item c1 s1 ''P1'' ''O1'' 10 1 (1 / 10) 2,
        line_item c2 s2 ''P1'' ''O1'' 20 2 (3 / 10) 4] =
     [\<lparr>od_OrderID = ''O1'', od_ProductID = ''P1'', od_Sales = 30, od_Quantity = 3,
       od_Discount = 2 / 10, od_Profit = 6\<rparr>]"
  using order_details_distinct [of df] order_details_find [of oid pid df]
    example_order_details [of c1 s1 c2 s2]
  by (intro conjI)

section \<open>The products table and the foreign keys\<close>

lemma merge_left_rows:
  "map fst (merge lkey rkey left right) =
     concat (map (\<lambda>l. replicate (length (filter (\<lambda>r. rkey r = lkey l) right)) l) left)"
  by (induction left) (simp_all add: merge_def comp_def map_replicate_const)


lemma sorted_replicated:
  "sorted (map f rows) \<Longrightarrow>
   sorted (map f (concat (map (\<lambda>l. replicate (n l) l) rows)))"
  by (induction rows) (auto simp: sorted_append)



lemma products_follow_first_appearance:
  "sorted (map (\<lambda>p. first_appearance_rank (p_ProductID p) (map Product_ID df)) (df_products df))"
proof -
  let ?rows = "map (\<lambda>r. (Product_ID r, Product_Name r, Sub_Category r)) df"
  let ?left = "drop_duplicates (\<lambda>(pid, pn, sn). pid) ?rows"
  let ?merged = "merge (\<lambda>(pid, pn, sn). sn) sub_SubCategoryName ?left (df_sub_categories df)"
  let ?rank = "\<lambda>l. first_appearance_rank (fst l) (map Product_ID df)"
  have keys: "map (\<lambda>(pid, pn, sn). pid) ?rows = map Product_ID df" by (simp add: comp_def)
  have "map (\<lambda>l. first_appearance_rank ((\<lambda>(pid, pn, sn). pid) l)
            (map (\<lambda>(pid, pn, sn). pid) ?rows)) ?left =
        map int [1..<Suc (card ((\<lambda>(pid, pn, sn). pid) ` set ?rows))]"
    by (rule rank_drop_duplicates)
  then have "map ?rank ?left = map int [1..<Suc (card ((\<lambda>(pid, pn, sn). pid) ` set ?rows))]"
    by (simp only: keys) (simp add: split_def)
  moreover have "sorted (map int [1..<Suc n])" for n
    by (simp add: sorted_map sorted_wrt_map del: upt_Suc)
  ultimately have "sorted (map ?rank ?left)" by simp
  then have "sorted (map ?rank (concat (map (\<lambda>l. replicate
      (length (filter (\<lambda>s. sub_SubCategoryName s = (\<lambda>(pid, pn, sn). sn) l) (df_sub_categories df))) l)
      ?left)))"
    by (rule sorted_replicated)
  then have "sorted (map ?rank (map fst ?merged))"
    by (simp only: merge_left_rows)
  moreover have "map (\<lambda>p. first_appearance_rank (p_ProductID p) (map Product_ID df))
      (df_products df) = map ?rank (map fst ?merged)"
    by (simp add: df_products_def products_from_def comp_def split_def)
  ultimately show ?thesis by simp
qed



subsection \<open>Foreign keys\<close>

lemma snd_index_plus_1_set: "snd ` set (index_plus_1 rows) = set rows"
  using snd_index_plus_1 [of rows] by (metis set_map)

lemma sub_categories_from_refs:
  "sub_CategoryID ` set (sub_categories_from df categories) \<subseteq> cat_CategoryID ` set categories"
proof -
  let ?merged = "merge fst cat_CategoryName
      (drop_duplicates (\<lambda>p. p) (map (\<lambda>r. (Category r, Sub_Category r)) df)) categories"
  have "sub_CategoryID ` set (sub_categories_from df categories) =
      (\<lambda>x. cat_CategoryID (snd x)) ` snd ` set (index_plus_1 ?merged)"
    by (simp add: sub_categories_from_def image_image split_def)
  also have "\<dots> = cat_CategoryID ` snd ` set ?merged"
    by (simp only: snd_index_plus_1_set) (simp add: image_image)
  also have "\<dots> \<subseteq> cat_CategoryID ` set categories"
    using merge_set [of fst cat_CategoryName _ categories] by fastforce
  finally show ?thesis .
qed

lemma products_from_refs:
  "p_SubCategoryID ` set (products_from df sub_categories) \<subseteq>
     sub_SubCategoryID ` set sub_categories"
proof -
  have "p_SubCategoryID ` set (products_from df sub_categories) =
      sub_SubCategoryID ` snd ` set (merge (\<lambda>(pid, pn, sn). sn) sub_SubCategoryName
        (drop_duplicates (\<lambda>(pid, pn, sn). pid)
           (map (\<lambda>r. (Product_ID r, Product_Name r, Sub_Category r)) df)) sub_categories)"
    by (simp add: products_from_def image_image split_def)
  also have "\<dots> \<subseteq> sub_SubCategoryID ` set sub_categories"
    using merge_set [of "\<lambda>(pid, pn, sn). sn" sub_SubCategoryName _ sub_categories] by fastforce
  finally show ?thesis .
qed

subsection \<open>An evaluation and the end of a run\<close>

lemma ambiguous_sub_category_products:
  "df_products
     [line_item ''Furniture'' ''Accessories'' ''P1'' ''O1'' 10 1 0 2,
      line_item ''Technology'' ''Accessories'' ''P2'' ''O2'' 20 2 0 4] =
   [\<lparr>p_ProductID = ''P1'', p_ProductName = ''Item'', p_SubCategoryID = 1\<rparr>,
    \<lparr>p_ProductID = ''P1'', p_ProductName = ''Item'', p_SubCategoryID = 2\<rparr>,
    \<lparr>p_ProductID = ''P2'', p_ProductName = ''Item'', p_SubCategoryID = 1\<rparr>,
    \<lparr>p_ProductID = ''P2'', p_ProductName = ''Item'', p_SubCategoryID = 2\<rparr>]"
  by (simp add: df_products_def products_from_def df_sub_categories_def sub_categories_from_def
      df_categories_def index_plus_1_def unique_def drop_duplicates_def merge_def line_item_def)



text \<open>
  C5. Every CategoryID of the sub-categories table is the CategoryID of a row of the
  categories table of the same run, and every SubCategoryID of the products table is the
  SubCategoryID of a row of the sub-categories table of the same run.
\<close>

theorem foreign_keys_resolve:
  "sub_CategoryID ` set (df_sub_categories df) \<subseteq> cat_CategoryID ` set (df_categories df)
   \<and> p_SubCategoryID ` set (df_products df) \<subseteq> sub_SubCategoryID ` set (df_sub_categories df)"
  using sub_categories_from_refs [of df "df_categories df"]
    products_from_refs [of df "df_sub_categories df"]
  by (simp add: df_sub_categories_def df_products_def)

text \<open>
  C4, at an input where the claim fails. Two input rows put the sub-category name
  Accessories under two categories; the sub-categories table then has two rows of that
  name, the merge on the name pairs each product with both, and the products table holds
  the ProductIDs P1 and P2 twice each.
\<close>

theorem product_id_repeated:
  "df_products
     [line_item ''Furniture'' ''Accessories'' ''P1'' ''O1'' 10 1 0 2,
      line_item ''Technology'' ''Accessories'' ''P2'' ''O2'' 20 2 0 4] =
   [\<lparr>p_ProductID = ''P1'', p_ProductName = ''Item'', p_SubCategoryID = 1\<rparr>,
    \<lparr>p_ProductID = ''P1'', p_ProductName = ''Item'', p_SubCategoryID = 2\<rparr>,
    \<lparr>p_ProductID = ''P2'', p_ProductName = ''Item'', p_SubCategoryID = 1\<rparr>,
    \<lparr>p_ProductID = ''P2'', p_ProductName = ''Item'', p_SubCategoryID = 2\<rparr>]
   \<and> \<not> distinct (map p_ProductID (df_products
       [line_item ''Furniture'' ''Accessories'' ''P1'' ''O1'' 10 1 0 2,
        line_item ''Technology'' ''Accessories'' ''P2'' ''O2'' 20 2 0 4]))"
  by (simp add: ambiguous_sub_category_products)

subsection \<open>Every lookup resolves\<close>

lemma merge_keeps_matched:
  "fst ` set (merge lkey rkey left right) = set left - set (unmatched lkey rkey left right)"
  by (force simp: merge_def unmatched_def image_iff filter_empty_conv)




section \<open>Row order of the tables\<close>

lemma customers_rank:
  "map (\<lambda>c. first_appearance_rank (c_CustomerID c) (map Customer_ID df)) (df_customers df) =
     map int [1..<Suc (card (Customer_ID ` set df))]"
  using rank_drop_duplicates [of c_CustomerID "map customer_of df"]
  by (simp add: df_customers_def customer_of_def comp_def image_image)

lemma locations_rank:
  "map (\<lambda>l. first_appearance_rank (l_PostalCode l) (map Postal_Code df)) (df_locations df) =
     map int [1..<Suc (card (Postal_Code ` set df))]"
  using rank_drop_duplicates [of l_PostalCode "map location_of df"]
  by (simp add: df_locations_def location_of_def comp_def image_image)

lemma orders_rank:
  "map (\<lambda>ord. first_appearance_rank (o_OrderID ord) (map Order_ID df)) (df_orders df) =
     map int [1..<Suc (card (Order_ID ` set df))]"
  using rank_drop_duplicates [of o_OrderID "map order_of df"]
  by (simp add: df_orders_def order_of_def comp_def image_image)

lemma categories_rank:
  "map (\<lambda>c. first_appearance_rank (cat_CategoryName c) (map Category df)) (df_categories df) =
     map int [1..<Suc (card (Category ` set df))]"
  using rank_unique [of "map Category df"] by (simp add: categories_by_rank comp_def)

lemma example_order_swap:
  "map (\<lambda>d. (od_OrderID d, od_ProductID d))
     (df_order_details
        [line_item ''Furniture'' ''Chairs'' ''P2'' ''O2'' 1 1 0 1,
         line_item ''Furniture'' ''Chairs'' ''P1'' ''O1'' 1 1 0 1]) =
   [(''O1'', ''P1''), (''O2'', ''P2'')]"
  by code_simp

text \<open>
  C10. The (OrderID, ProductID) keys of the order-details table are the keys of the input
  in strictly ascending lexicographic order (OrderID first, strings compared character by
  character), whatever the order of the input: an input with (O2, P2) before (O1, P1)
  gives (O1, P1) before (O2, P2). The rows of the customers, locations, orders and
  categories tables have the first-appearance ranks 1, 2, ... of their keys, the
  SubCategoryID column, which by C2 holds the first-appearance rank of each pair, is
  1, 2, ..., and the rows of the products table are in non-descending first-appearance
  rank of their ProductID.
\<close>

theorem order_details_sorted_by_key:
  "map (\<lambda>d. (od_OrderID d, od_ProductID d)) (df_order_details df) =
     sorted_list_of_set ((\<lambda>r. (Order_ID r, Product_ID r)) ` set df)
   \<and> sorted_wrt (<) (map (\<lambda>d. (od_OrderID d, od_ProductID d)) (df_order_details df))
   \<and> map (\<lambda>d. (od_OrderID d, od_ProductID d))
       (df_order_details
          [line_item ''Furniture'' ''Chairs'' ''P2'' ''O2'' 1 1 0 1,
           line_item ''Furniture'' ''Chairs'' ''P1'' ''O1'' 1 1 0 1]) =
     [(''O1'', ''P1''), (''O2'', ''P2'')]
   \<and> map (\<lambda>c. first_appearance_rank (c_CustomerID c) (map Customer_ID df)) (df_customers df) =
     map int [1..<Suc (card (Customer_ID ` set df))]
   \<and> map (\<lambda>l. first_appearance_rank (l_PostalCode l) (map Postal_Code df)) (df_locations df) =
     map int [1..<Suc (card (Postal_Code ` set df))]
   \<and> map (\<lambda>ord. first_appearance_rank (o_OrderID ord) (map Order_ID df)) (df_orders df) =
     map int [1..<Suc (card (Order_ID ` set df))]
   \<and> map (\<lambda>c. first_appearance_rank (cat_CategoryName c) (map Category df)) (df_categories df) =
     map int [1..<Suc (card (Category ` set df))]
   \<and> map sub_SubCategoryID (df_sub_categories df) =
     map int [1..<Suc (card ((\<lambda>r. (Category r, Sub_Category r)) ` set df))]
   \<and> sorted (map (\<lambda>p. first_appearance_rank (p_ProductID p) (map Product_ID df))
       (df_products df))"
  using order_details_keys [of df] order_details_strictly_ascending [of df] example_order_swap
    customers_rank [of df] locations_rank [of df] orders_rank [of df] categories_rank [of df]
    sub_categories_ids [of df] products_follow_first_appearance [of df]
  by (intro conjI)

end
